theory Spec2Isabelle
  imports Complex_Main "HOL-Library.AList"
begin

section \<open>Decoded JSON values and the Python operations applied to them\<close>

text \<open>
  The client works on whatever \<^verbatim>\<open>json.loads\<close> and \<^verbatim>\<open>response.json()\<close> hand
  back: \<^verbatim>\<open>None\<close>, booleans, integers, floats, strings, lists and dictionaries with
  string keys. A dictionary is an association list in insertion order; lookups go
  through \<open>map_of\<close>. Strings are lists of characters with code points below 256.
\<close>

datatype pyfloat = Finite rat | PosInf | NegInf | NaN

datatype json =
    JNull
  | JBool bool
  | JInt int
  | JFloat pyfloat
  | JStr string
  | JList "json list"
  | JObj "(string \<times> json) list"

type_synonym pydict = "(string \<times> json) list"

text \<open>
  Exceptions are values. \<open>LibError\<close> stands for any exception (a subclass of
  \<^verbatim>\<open>Exception\<close>) raised inside the MCP SDK, anyio or httpx, tagged by its message.
\<close>

datatype py_error =
    TypeError
  | AttributeError
  | KeyError
  | IndexError
  | ValueError
  | HTTPStatusError
  | LibError string


text \<open>\<^verbatim>\<open>d.get(k, default)\<close> on a dictionary.\<close>

definition dict_get :: "pydict \<Rightarrow> string \<Rightarrow> json \<Rightarrow> json" where
  "dict_get d k dflt = (case map_of d k of Some v \<Rightarrow> v | None \<Rightarrow> dflt)"

text \<open>\<^verbatim>\<open>len(x)\<close>: defined on strings, lists and dictionaries, a TypeError elsewhere.\<close>

fun py_len :: "json \<Rightarrow> py_error + nat" where
  "py_len (JStr s) = Inr (length s)"
| "py_len (JList xs) = Inr (length xs)"
| "py_len (JObj kvs) = Inr (length (remdups (map fst kvs)))"
| "py_len _ = Inl TypeError"

text \<open>
  \<^verbatim>\<open>x[0]\<close>: the first element of a list, the first character of a string, a KeyError
  on a decoded dictionary (its keys are strings, never \<open>0\<close>), a TypeError on the
  values that cannot be subscripted.
\<close>

fun py_index0 :: "json \<Rightarrow> py_error + json" where
  "py_index0 (JList (x # xs)) = Inr x"
| "py_index0 (JList []) = Inl IndexError"
| "py_index0 (JStr (c # cs)) = Inr (JStr [c])"
| "py_index0 (JStr []) = Inl IndexError"
| "py_index0 (JObj kvs) = Inl KeyError"
| "py_index0 _ = Inl TypeError"

text \<open>\<^verbatim>\<open>x.get(k, default)\<close> on an arbitrary value: only dictionaries have the method.\<close>

fun py_get :: "json \<Rightarrow> string \<Rightarrow> json \<Rightarrow> py_error + json" where
  "py_get (JObj d) k dflt = Inr (dict_get d k dflt)"
| "py_get _ k dflt = Inl AttributeError"

definition is_str :: "json \<Rightarrow> bool" where
  "is_str v = (case v of JStr s \<Rightarrow> True | _ \<Rightarrow> False)"

definition is_obj :: "json \<Rightarrow> bool" where
  "is_obj v = (case v of JObj d \<Rightarrow> True | _ \<Rightarrow> False)"

section \<open>Response Extractor\<close>

text \<open>
  \<^verbatim>\<open>_extract_response\<close> of \<^verbatim>\<open>api_bridge.py\<close> and \<^verbatim>\<open>mcp_server.py\<close> (the two copies
  are identical). \<^verbatim>\<open>json.dumps\<close> is the parameter \<open>dumps\<close>. The result is the
  Python value returned, or the exception raised.
\<close>

definition extract_fallback :: "(json \<Rightarrow> string) \<Rightarrow> pydict \<Rightarrow> py_error + json" where
  "extract_fallback dumps response =
     (case map_of response ''message'' of
        Some m \<Rightarrow> py_get m ''content'' (JStr (dumps (JObj response)))
      | None \<Rightarrow> Inr (JStr (dumps (JObj response))))"

definition extract_response :: "(json \<Rightarrow> string) \<Rightarrow> pydict \<Rightarrow> py_error + json" where
  "extract_response dumps response =
     (case map_of response ''choices'' of
        None \<Rightarrow> extract_fallback dumps response
      | Some choices \<Rightarrow>
          (case py_len choices of
             Inl e \<Rightarrow> Inl e
           | Inr n \<Rightarrow>
               if 0 < n then
                 (case py_index0 choices of
                    Inl e \<Rightarrow> Inl e
                  | Inr choice \<Rightarrow>
                      (case py_get choice ''message'' (JObj []) of
                         Inl e \<Rightarrow> Inl e
                       | Inr m \<Rightarrow> py_get m ''content'' (JStr [])))
               else extract_fallback dumps response))"

text \<open>
  The three-way rule as the specification words it: a non-empty \<open>choices\<close> sequence
  gives \<open>choices[0].message.content\<close>, with the empty string when \<open>message\<close> or
  \<open>content\<close> is absent; else a \<open>message\<close> field gives its \<open>content\<close>, with the
  serialized response when \<open>content\<close> is absent; else the serialized response.
\<close>

definition field :: "json \<Rightarrow> string \<Rightarrow> json option" where
  "field v k = (case v of JObj d \<Rightarrow> map_of d k | _ \<Rightarrow> None)"



text \<open>
  The responses on which every level the extractor walks has the shape it expects:
  \<open>choices\<close>, when present, is empty or a list headed by an object whose \<open>message\<close>,
  when present, is an object; and when \<open>choices\<close> is absent or empty, a top-level
  \<open>message\<close> is an object.
\<close>

definition message_ok :: "pydict \<Rightarrow> bool" where
  "message_ok d = (case map_of d ''message'' of None \<Rightarrow> True | Some m \<Rightarrow> is_obj m)"

definition shaped :: "pydict \<Rightarrow> bool" where
  "shaped response =
     (case map_of response ''choices'' of
        None \<Rightarrow> message_ok response
      | Some (JList []) \<Rightarrow> message_ok response
      | Some (JStr []) \<Rightarrow> message_ok response
      | Some (JObj []) \<Rightarrow> message_ok response
      | Some (JList (JObj d # cs)) \<Rightarrow> message_ok d
      | Some _ \<Rightarrow> False)"

section \<open>Tool-Result Parser\<close>

text \<open>
  \<^verbatim>\<open>_parse_mcp_result\<close> probes its argument with \<^verbatim>\<open>getattr\<close> and \<^verbatim>\<open>hasattr\<close>, so a
  content item is modelled by the three attributes the code reads. An attribute can be
  missing altogether (\<open>Missing\<close>) or be there, possibly holding \<^verbatim>\<open>None\<close>.
  \<open>res_uri\<close> is \<^verbatim>\<open>str(getattr(resource, "uri", ""))\<close>; \<open>res_text\<close> and \<open>item_text\<close> are
  \<^verbatim>\<open>getattr(..., "text", None)\<close>; \<open>item_type\<close> is \<^verbatim>\<open>getattr(item, "type", None)\<close>.
\<close>

datatype 'a attr = Missing | Present 'a

record resource_contents =
  res_uri :: string
  res_text :: "string option"

record content_item =
  item_type :: "string option"
  item_resource :: "resource_contents option attr"
  item_text :: "string option"

record tool_result =
  content :: "content_item list option"


definition get_resource :: "content_item \<Rightarrow> resource_contents option" where
  "get_resource item = (case item_resource item of Missing \<Rightarrow> None | Present r \<Rightarrow> r)"







section \<open>MCP sessions\<close>

text \<open>
  What the outside world does during one call. Every step of
  \<^verbatim>\<open>async with streamablehttp_client(...)\<close>, \<^verbatim>\<open>async with ClientSession(...)\<close>,
  \<^verbatim>\<open>session.initialize()\<close> and \<^verbatim>\<open>session.call_tool(...)\<close> either goes through or raises;
  the two context managers are left in reverse order, also when the block raised, and
  an exception raised on leaving replaces the one in flight. \<open>post_reply\<close> is the
  answer of the chat endpoint.
\<close>

record http_response =
  is_success :: bool
  body_json :: "json option"

record world =
  github_token :: "string option"
  transport_enter :: "py_error option"
  session_enter :: "py_error option"
  session_init :: "py_error option"
  tool_reply :: "py_error + tool_result"
  session_exit :: "py_error option"
  transport_exit :: "py_error option"
  post_reply :: "py_error + http_response"

text \<open>\<^verbatim>\<open>_get_token\<close>: a missing or empty \<^verbatim>\<open>GITHUB_TOKEN\<close> raises ValueError.\<close>

definition get_token :: "world \<Rightarrow> py_error + string" where
  "get_token w =
     (case github_token w of
        None \<Rightarrow> Inl ValueError
      | Some tok \<Rightarrow> if tok = [] then Inl ValueError else Inr tok)"

text \<open>
  A block's outcome is the exception in flight (if any) and the value of the local
  variable the handler looks at. Leaving a context manager keeps the variable.
\<close>

definition leave :: "py_error option \<Rightarrow> py_error option \<times> 's \<Rightarrow> py_error option \<times> 's" where
  "leave ex r = (case ex of Some e \<Rightarrow> (Some e, snd r) | None \<Rightarrow> r)"

definition mcp_session ::
  "world \<Rightarrow> 's \<Rightarrow> (tool_result \<Rightarrow> py_error option \<times> 's) \<Rightarrow> py_error option \<times> 's" where
  "mcp_session w s0 body =
     (case get_token w of
        Inl e \<Rightarrow> (Some e, s0)
      | Inr tok \<Rightarrow>
          (case transport_enter w of
             Some e \<Rightarrow> (Some e, s0)
           | None \<Rightarrow>
               leave (transport_exit w)
                 (case session_enter w of
                    Some e \<Rightarrow> (Some e, s0)
                  | None \<Rightarrow>
                      leave (session_exit w)
                        (case session_init w of
                           Some e \<Rightarrow> (Some e, s0)
                         | None \<Rightarrow>
                             (case tool_reply w of
                                Inl e \<Rightarrow> (Some e, s0)
                              | Inr r \<Rightarrow> body r)))))"

section \<open>Space Lister\<close>









section \<open>String operations\<close>

text \<open>
  \<^verbatim>\<open>str.isspace\<close> on the code points below 256: tab to carriage return, the four
  separators \<open>0x1C\<close> to \<open>0x1F\<close>, the space, \<open>0x85\<close> and \<open>0xA0\<close>.
\<close>

definition is_space :: "char \<Rightarrow> bool" where
  "is_space c =
     (let n = (of_char c :: nat)
      in (9 \<le> n \<and> n \<le> 13) \<or> (28 \<le> n \<and> n \<le> 32) \<or> n = 133 \<or> n = 160)"

text \<open>\<^verbatim>\<open>s.strip()\<close>.\<close>

definition strip :: "string \<Rightarrow> string" where
  "strip s = rev (dropWhile is_space (rev (dropWhile is_space s)))"

text \<open>\<^verbatim>\<open>sub in s\<close>.\<close>

fun contains :: "string \<Rightarrow> string \<Rightarrow> bool" where
  "contains sub [] = (sub = [])"
| "contains sub (c # cs) = (take (length sub) (c # cs) = sub \<or> contains sub cs)"

text \<open>
  \<^verbatim>\<open>s.split(sep, 1)\<close> for a separator that occurs: the parts before and after its
  leftmost occurrence. \<open>None\<close> when it does not occur (Python then returns \<open>[s]\<close>).
\<close>

fun split_first :: "string \<Rightarrow> string \<Rightarrow> (string \<times> string) option" where
  "split_first sep [] = (if sep = [] then Some ([], []) else None)"
| "split_first sep (c # cs) =
     (if take (length sep) (c # cs) = sep then Some ([], drop (length sep) (c # cs))
      else (case split_first sep cs of
              None \<Rightarrow> None
            | Some (a, b) \<Rightarrow> Some (c # a, b)))"

text \<open>\<^verbatim>\<open>s.split(sep, 1)[-1]\<close>.\<close>

definition after_first :: "string \<Rightarrow> string \<Rightarrow> string" where
  "after_first sep s = (case split_first sep s of Some (a, b) \<Rightarrow> b | None \<Rightarrow> s)"

text \<open>\<^verbatim>\<open>sep.join(parts)\<close>.\<close>

fun join :: "string \<Rightarrow> string list \<Rightarrow> string" where
  "join sep [] = []"
| "join sep [x] = x"
| "join sep (x # y # ys) = x @ sep @ join sep (y # ys)"

text \<open>\<^verbatim>\<open>xs[-n:]\<close> for a positive \<open>n\<close>.\<close>

definition last_n :: "nat \<Rightarrow> 'a list \<Rightarrow> 'a list" where
  "last_n n xs = drop (length xs - n) xs"

text \<open>A natural number in decimal, as an f-string prints it.\<close>

definition digit :: "nat \<Rightarrow> char" where
  "digit d = ''0123456789'' ! d"

fun show_nat :: "nat \<Rightarrow> string" where
  "show_nat n =
     (if n < 10 then [digit n]
      else show_nat (n div 10) @ [digit (n mod 10)])"

declare show_nat.simps [simp del]

section \<open>Space Fetcher\<close>

text \<open>
  The dictionaries \<^verbatim>\<open>{"path": ..., "content": ...}\<close> and
  \<^verbatim>\<open>{"name", "owner", "space_ref", "files", "context"}\<close> have fixed keys and are records.
  The local variable \<^verbatim>\<open>space_result\<close> starts as the empty dictionary, \<open>None\<close> here.
\<close>

record file_entry =
  file_path :: string
  file_content :: string

record space =
  sp_name :: string
  sp_owner :: string
  sp_space_ref :: string
  sp_files :: "file_entry list"
  sp_context :: string

definition split_space_ref :: "string \<Rightarrow> string \<times> string" where
  "split_space_ref space_ref =
     (if contains ''/'' space_ref then
        (case split_first ''/'' space_ref of
           Some (owner, name) \<Rightarrow> (owner, name)
         | None \<Rightarrow> ([], space_ref))
      else ([], space_ref))"

text \<open>
  One round of \<^verbatim>\<open>for item in (result.content or [])\<close>; the state is
  \<^verbatim>\<open>(space_name, files)\<close>.
\<close>

definition item_step :: "string \<Rightarrow> string \<times> file_entry list \<Rightarrow> content_item \<Rightarrow> string \<times> file_entry list" where
  "item_step name st item =
     (case get_resource item of
        None \<Rightarrow> st
      | Some resource \<Rightarrow>
          (let uri = res_uri resource;
               text = (case res_text resource of None \<Rightarrow> [] | Some t \<Rightarrow> t)
           in if contains ''/contents/name'' uri then
                ((if strip text \<noteq> [] then strip text else name), snd st)
              else if contains ''/files/'' uri then
                (if strip text \<noteq> [] then
                   (fst st, snd st @ [\<lparr>file_path = after_first ''/files/'' uri, file_content = text\<rparr>])
                 else st)
              else st))"

definition walk_items :: "string \<Rightarrow> content_item list \<Rightarrow> string \<times> file_entry list" where
  "walk_items name items = foldl (item_step name) (name, []) items"

definition newline :: char where
  "newline = CHR 0x0A"

definition file_section :: "file_entry \<Rightarrow> string" where
  "file_section f = ''### File: '' @ file_path f @ [newline, newline] @ file_content f"

definition section_separator :: string where
  "section_separator = [newline, newline] @ ''---'' @ [newline, newline]"

definition build_context :: "file_entry list \<Rightarrow> string" where
  "build_context files = join section_separator (map file_section files)"

definition get_body ::
  "string \<Rightarrow> string \<Rightarrow> string \<Rightarrow> tool_result \<Rightarrow> py_error option \<times> space option" where
  "get_body owner name space_ref result =
     (let items = (case content result of None \<Rightarrow> [] | Some xs \<Rightarrow> xs);
          st = walk_items name items
      in (None,
          Some \<lparr>sp_name = fst st, sp_owner = owner, sp_space_ref = space_ref,
                sp_files = snd st, sp_context = build_context (snd st)\<rparr>))"

definition get_copilot_space :: "world \<Rightarrow> string \<Rightarrow> py_error + space option" where
  "get_copilot_space w space_ref =
     (case split_space_ref space_ref of
        (owner, name) \<Rightarrow>
          (case mcp_session w None (get_body owner name space_ref) of
             (None, space_result) \<Rightarrow> Inr space_result
           | (Some e, space_result) \<Rightarrow>
               (case space_result of
                  Some sp \<Rightarrow> Inr space_result
                | None \<Rightarrow> Inl e)))"

section \<open>Chat Invoker\<close>

text \<open>
  \<^verbatim>\<open>query_copilot_space\<close>: the token, the POST, \<^verbatim>\<open>raise_for_status\<close>,
  \<^verbatim>\<open>response.json()\<close> (a ValueError when the body is not JSON), and the log line that
  calls \<^verbatim>\<open>data.get\<close>, an AttributeError unless the body is a dictionary.
\<close>

definition query_copilot_space :: "world \<Rightarrow> string \<Rightarrow> json list \<Rightarrow> py_error + pydict" where
  "query_copilot_space w space_id messages =
     (case get_token w of
        Inl e \<Rightarrow> Inl e
      | Inr token \<Rightarrow>
          (case post_reply w of
             Inl e \<Rightarrow> Inl e
           | Inr response \<Rightarrow>
               if \<not> is_success response then Inl HTTPStatusError
               else
                 (case body_json response of
                    None \<Rightarrow> Inl ValueError
                  | Some data \<Rightarrow>
                      (case data of JObj d \<Rightarrow> Inr d | _ \<Rightarrow> Inl AttributeError))))"

section \<open>Conversation store and the HTTP query route\<close>

record store =
  conversations :: "string \<Rightarrow> json list option"
  conv_counter :: nat

record query_request =
  req_prompt :: string
  req_conversationId :: "string option"

definition new_conversation_id :: "store \<Rightarrow> store \<times> string" where
  "new_conversation_id st =
     (st\<lparr>conv_counter := conv_counter st + 1\<rparr>, ''conv-'' @ show_nat (conv_counter st + 1))"

definition mk_turn :: "string \<Rightarrow> json \<Rightarrow> json" where
  "mk_turn role body = JObj [(''role'', JStr role), (''content'', body)]"

definition is_system :: "json \<Rightarrow> bool" where
  "is_system turn = (field turn ''role'' = Some (JStr ''system''))"

definition no_files_note :: string where
  "no_files_note = ''(No knowledge files are attached to this space yet.)''"

definition system_intro :: "string \<Rightarrow> string \<Rightarrow> string" where
  "system_intro owner name =
     ''You are GitHub Copilot operating in the '' @ [CHR 0x27] @ name @ [CHR 0x27] @ '' space ''
     @ ''(owner: '' @ owner @ ''). ''
     @ ''Answer questions using ONLY the knowledge files below. ''
     @ ''If the answer is not in the files, say so honestly.'' @ [newline, newline]"

definition system_content :: "string \<Rightarrow> string \<Rightarrow> string \<Rightarrow> string" where
  "system_content owner name file_context =
     system_intro owner name
     @ (if file_context \<noteq> [] then ''## Space Knowledge Files'' @ [newline, newline] @ file_context
        else no_files_note)"

text \<open>\<^verbatim>\<open>conv_id and conv_id in _conversations\<close>, with the history found.\<close>

definition lookup_conversation :: "store \<Rightarrow> string option \<Rightarrow> (string \<times> json list) option" where
  "lookup_conversation st conv_id =
     (case conv_id of
        None \<Rightarrow> None
      | Some c \<Rightarrow>
          if c = [] then None
          else (case conversations st c of None \<Rightarrow> None | Some h \<Rightarrow> Some (c, h)))"

text \<open>
  \<^verbatim>\<open>space_detail.get("context", "")\<close> inside \<^verbatim>\<open>try ... except Exception: file_context = ""\<close>.
\<close>

definition fetch_file_context :: "world \<Rightarrow> string \<Rightarrow> string" where
  "fetch_file_context w space_ref =
     (case get_copilot_space w space_ref of
        Inl e \<Rightarrow> []
      | Inr None \<Rightarrow> []
      | Inr (Some sp) \<Rightarrow> sp_context sp)"

text \<open>Get or create the conversation: the store, the id and the history in use.\<close>

definition open_conversation ::
  "world \<Rightarrow> store \<Rightarrow> string \<Rightarrow> string \<Rightarrow> string option \<Rightarrow> store \<times> string \<times> json list" where
  "open_conversation w st owner name conv_id =
     (case lookup_conversation st conv_id of
        Some (c, history) \<Rightarrow> (st, c, history)
      | None \<Rightarrow>
          (case new_conversation_id st of
             (st1, c) \<Rightarrow>
               (let file_context = fetch_file_context w (owner @ ''/'' @ name);
                    history = [mk_turn ''system'' (JStr (system_content owner name file_context))]
                in (st1\<lparr>conversations := (conversations st1)(c \<mapsto> history)\<rparr>, c, history))))"

text \<open>
  The route's outcome: the reply (the tuple \<open>(conversationId, response, spaceId)\<close>, or
  the exception that becomes the HTTP 500), the store afterwards, and the message list
  handed to \<^verbatim>\<open>query_copilot_space\<close>. The history list is stored by reference, so every
  append shows in the store.
\<close>

record query_outcome =
  reply :: "py_error + (string \<times> json \<times> string)"
  final_store :: store
  chat_messages :: "json list"

definition api_query_space ::
  "(json \<Rightarrow> string) \<Rightarrow> world \<Rightarrow> store \<Rightarrow> string \<Rightarrow> string \<Rightarrow> query_request \<Rightarrow> query_outcome" where
  "api_query_space dumps w st owner name request =
     (case open_conversation w st owner name (req_conversationId request) of
        (st1, conv_id, history) \<Rightarrow>
          (let space_ref = owner @ ''/'' @ name;
               history1 = history @ [mk_turn ''user'' (JStr (req_prompt request))];
               st2 = st1\<lparr>conversations := (conversations st1)(conv_id \<mapsto> history1)\<rparr>;
               api_messages = last_n 20 history1
           in case query_copilot_space w space_ref api_messages of
                Inl e \<Rightarrow> \<lparr>reply = Inl e, final_store = st2, chat_messages = api_messages\<rparr>
              | Inr response \<Rightarrow>
                  (case extract_response dumps response of
                     Inl e \<Rightarrow> \<lparr>reply = Inl e, final_store = st2, chat_messages = api_messages\<rparr>
                   | Inr assistant_content \<Rightarrow>
                       \<lparr>reply = Inr (conv_id, assistant_content, space_ref),
                        final_store = st2\<lparr>conversations := (conversations st2)
                          (conv_id \<mapsto> history1 @ [mk_turn ''assistant'' assistant_content])\<rparr>,
                        chat_messages = api_messages\<rparr>)))"

section \<open>The MCP tool \<open>query_space\<close>\<close>





section \<open>Notions used to state the properties\<close>










text \<open>
  The Space Fetcher's result in terms of the resources the items carry: which of them
  name the space, which are files, the file entry of a resource, the display name, the
  files the specification lists and the files the loop collects.
\<close>

definition resources :: "content_item list \<Rightarrow> resource_contents list" where
  "resources items = List.map_filter get_resource items"

definition text_of :: "resource_contents \<Rightarrow> string" where
  "text_of r = (case res_text r of None \<Rightarrow> [] | Some t \<Rightarrow> t)"

definition is_name_item :: "resource_contents \<Rightarrow> bool" where
  "is_name_item r = contains ''/contents/name'' (res_uri r)"

definition is_file_item :: "resource_contents \<Rightarrow> bool" where
  "is_file_item r = (contains ''/files/'' (res_uri r) \<and> strip (text_of r) \<noteq> [])"

definition file_of :: "resource_contents \<Rightarrow> file_entry" where
  "file_of r = \<lparr>file_path = after_first ''/files/'' (res_uri r), file_content = text_of r\<rparr>"


definition spec_files :: "resource_contents list \<Rightarrow> file_entry list" where
  "spec_files rs = map file_of (filter is_file_item rs)"

definition walked_files :: "resource_contents list \<Rightarrow> file_entry list" where
  "walked_files rs = map file_of (filter (\<lambda>r. \<not> is_name_item r \<and> is_file_item r) rs)"

text \<open>
  The history as it stands when the route calls the chat: the conversation found or
  created, with the user's turn appended.
\<close>

definition history_at_call ::
  "world \<Rightarrow> store \<Rightarrow> string \<Rightarrow> string \<Rightarrow> query_request \<Rightarrow> json list" where
  "history_at_call w st owner name request =
     snd (snd (open_conversation w st owner name (req_conversationId request)))
     @ [mk_turn ''user'' (JStr (req_prompt request))]"

text \<open>A conversation id that is absent, or not a key of the store.\<close>

definition unknown_conversation :: "store \<Rightarrow> string option \<Rightarrow> bool" where
  "unknown_conversation st conv_id =
     (case conv_id of None \<Rightarrow> True | Some c \<Rightarrow> conversations st c = None)"


text \<open>
  Inputs for closed examples: an embedded resource and a plain text item as the MCP
  SDK delivers them, and a world in which every step succeeds, the tool replies \<open>r\<close>
  and the chat endpoint answers \<open>hi\<close>.
\<close>

definition resource_item :: "string \<Rightarrow> string \<Rightarrow> content_item" where
  "resource_item uri t =
     \<lparr>item_type = Some ''resource'',
      item_resource = Present (Some \<lparr>res_uri = uri, res_text = Some t\<rparr>),
      item_text = None\<rparr>"


definition hi_response :: json where
  "hi_response =
     JObj [(''choices'', JList [JObj [(''message'', JObj [(''content'', JStr ''hi'')])]])]"

definition serving :: "tool_result \<Rightarrow> world" where
  "serving r =
     \<lparr>github_token = Some ''token'',
      transport_enter = None, session_enter = None, session_init = None,
      tool_reply = Inr r,
      session_exit = None, transport_exit = None,
      post_reply = Inr \<lparr>is_success = True, body_json = Some hi_response\<rparr>\<rparr>"

section \<open>Library behaviour used in closed examples\<close>




definition sample_dumps :: "json \<Rightarrow> string" where
  \<open>sample_dumps v =
     (if v = JObj [(''foo'', JStr ''bar'')] then ''{"foo": "bar"}''
      else if v = JObj [(''response'', JStr ''hi''), (''spaceId'', JStr ''acme/docs'')]
      then ''{"response": "hi", "spaceId": "acme/docs"}''
      else ''{}'')\<close>



section \<open>Properties of the Response Extractor\<close>


text \<open>The extractor returns a value exactly on the shaped responses.\<close>

lemma extract_response_returns_iff:
  "(\<exists>v. extract_response dumps response = Inr v) \<longleftrightarrow> shaped response"
  unfolding shaped_def extract_response_def extract_fallback_def
  by (auto simp: message_ok_def is_obj_def dict_get_def
      split: option.splits json.splits list.splits sum.splits)

text \<open>
  C4. The claim: for every decoded response object the extractor never raises and
  always returns a string. The code does neither on responses an OpenAI-compatible
  endpoint can send: with \<open>content\<close> null (as in a filtered or tool-call reply) the
  value returned is \<^verbatim>\<open>None\<close>, against the function's own \<^verbatim>\<open>-> str\<close> annotation, and
  with \<open>message\<close> null the call raises AttributeError.
\<close>

theorem extract_response_null_content:
  "extract_response dumps
     [(''choices'', JList [JObj [(''message'', JObj [(''content'', JNull)])]])] = Inr JNull
   \<and> \<not> is_str JNull
   \<and> extract_response dumps
       [(''choices'', JList [JObj [(''message'', JNull)]])] = Inl AttributeError"
  by (simp add: extract_response_def dict_get_def is_str_def)




section \<open>Properties of the Tool-Result Parser\<close>



section \<open>Properties of the MCP session and the cleanup tolerance\<close>






section \<open>Properties of the Space Lister\<close>






section \<open>Properties of the Space Fetcher\<close>









text \<open>The files are the specification's whenever no file URI also reads as a name URI.\<close>

lemma walked_files_spec:
  "list_all (\<lambda>r. \<not> (is_name_item r \<and> is_file_item r)) rs \<Longrightarrow> walked_files rs = spec_files rs"
  by (induction rs) (auto simp: walked_files_def spec_files_def)

lemma build_context_Nil: "build_context [] = []"
  by (simp add: build_context_def)

text \<open>
  C2. The claim: one file entry per item whose URI contains \<open>/files/\<close> and whose text
  is not blank. The code tests \<open>/contents/name\<close> first and by substring, so a file
  stored under a path such as \<open>notes/contents/name.md\<close> is taken for the space's
  name: its text becomes the display name and no file entry is made, where the
  specification lists the file.
\<close>

theorem get_copilot_space_file_taken_for_name:
  "get_copilot_space
     (serving \<lparr>content = Some
        [resource_item ''space://acme/7/files/notes/contents/name.md'' ''hello'']\<rparr>)
     ''acme/docs''
   = Inr (Some \<lparr>sp_name = ''hello'', sp_owner = ''acme'', sp_space_ref = ''acme/docs'',
                sp_files = [], sp_context = []\<rparr>)
   \<and> spec_files
       (resources [resource_item ''space://acme/7/files/notes/contents/name.md'' ''hello''])
     = [\<lparr>file_path = ''notes/contents/name.md'', file_content = ''hello''\<rparr>]"
  by (simp add: get_copilot_space_def split_space_ref_def mcp_session_def get_token_def
      serving_def leave_def get_body_def walk_items_def item_step_def resource_item_def
      get_resource_def strip_def is_space_def build_context_def spec_files_def
      resources_def List.map_filter_def is_file_item_def file_of_def text_of_def
      after_first_def)




section \<open>Properties of the conversation store and the query route\<close>

lemma lookup_unknown:
  "unknown_conversation st conv_id \<Longrightarrow> lookup_conversation st conv_id = None"
  by (auto simp: unknown_conversation_def lookup_conversation_def split: option.splits)

lemma open_unknown:
  "unknown_conversation st conv_id \<Longrightarrow>
   open_conversation w st owner name conv_id =
     (st\<lparr>conv_counter := conv_counter st + 1,
         conversations := (conversations st)
           (''conv-'' @ show_nat (conv_counter st + 1) \<mapsto>
              [mk_turn ''system''
                 (JStr (system_content owner name
                    (fetch_file_context w (owner @ ''/'' @ name))))])\<rparr>,
      ''conv-'' @ show_nat (conv_counter st + 1),
      [mk_turn ''system''
         (JStr (system_content owner name (fetch_file_context w (owner @ ''/'' @ name))))])"
  by (simp add: open_conversation_def lookup_unknown new_conversation_id_def Let_def)

lemma open_known:
  "lookup_conversation st conv_id = Some (c, h) \<Longrightarrow>
   open_conversation w st owner name conv_id = (st, c, h)"
  by (simp add: open_conversation_def)

lemma chat_messages_eq:
  "chat_messages (api_query_space dumps w st owner name request)
     = last_n 20 (history_at_call w st owner name request)"
  by (simp add: api_query_space_def history_at_call_def Let_def split: prod.splits sum.splits)

lemma last_n_min: "last_n n xs = drop (length xs - min (length xs) n) xs"
  by (simp add: last_n_def min_def)

lemma is_system_sys: "is_system (mk_turn ''system'' b)"
  by (simp add: is_system_def mk_turn_def field_def)

lemma not_system_user: "\<not> is_system (mk_turn ''user'' b)"
  by (simp add: is_system_def mk_turn_def field_def)

text \<open>
  C8. For every query the message list handed to the chat call is the last
  \<open>min(length, 20)\<close> turns of the history as it stands at the call: the stored history
  of a known conversation, or the new one, with the user's turn appended. When the
  conversation id is absent or unknown, the conversation created and stored consists
  of one system turn; with the user's turn appended it still has exactly one system
  turn, and that turn is first.
\<close>

theorem conversation_history_window:
  "chat_messages (api_query_space dumps w st owner name request)
     = drop (length (history_at_call w st owner name request)
             - min (length (history_at_call w st owner name request)) 20)
         (history_at_call w st owner name request)
   \<and> length (chat_messages (api_query_space dumps w st owner name request))
     = min (length (history_at_call w st owner name request)) 20
   \<and> (\<forall>c h. lookup_conversation st (req_conversationId request) = Some (c, h) \<longrightarrow>
         history_at_call w st owner name request
         = h @ [mk_turn ''user'' (JStr (req_prompt request))])
   \<and> (unknown_conversation st (req_conversationId request) \<longrightarrow>
        (\<exists>sys st1 c.
           open_conversation w st owner name (req_conversationId request) = (st1, c, [sys])
           \<and> conversations st1 c = Some [sys]
           \<and> is_system sys
           \<and> history_at_call w st owner name request
             = [sys, mk_turn ''user'' (JStr (req_prompt request))]
           \<and> length (filter is_system (history_at_call w st owner name request)) = 1))"
  by (auto simp: chat_messages_eq last_n_min open_known open_unknown history_at_call_def
      is_system_sys not_system_user)

theorem conversation_history_window_witness:
  "unknown_conversation \<lparr>conversations = Map.empty, conv_counter = 0\<rparr> None
   \<and> chat_messages
       (api_query_space sample_dumps
          (serving \<lparr>content = Some
             [resource_item ''space://acme/1/files/overview.md'' ''X is Y.'']\<rparr>)
          \<lparr>conversations = Map.empty, conv_counter = 0\<rparr> ''acme'' ''docs''
          \<lparr>req_prompt = ''What is X?'', req_conversationId = None\<rparr>)
     = [mk_turn ''system''
          (JStr (system_intro ''acme'' ''docs''
                 @ ''## Space Knowledge Files'' @ [newline, newline]
                 @ ''### File: overview.md'' @ [newline, newline] @ ''X is Y.'')),
        mk_turn ''user'' (JStr ''What is X?'')]
   \<and> lookup_conversation
       \<lparr>conversations =
          [''conv-1'' \<mapsto> [mk_turn ''system'' (JStr ''s''), mk_turn ''user'' (JStr ''u''),
                          mk_turn ''assistant'' (JStr ''a'')]],
        conv_counter = 1\<rparr> (Some ''conv-1'')
     = Some (''conv-1'',
             [mk_turn ''system'' (JStr ''s''), mk_turn ''user'' (JStr ''u''),
              mk_turn ''assistant'' (JStr ''a'')])
   \<and> chat_messages
       (api_query_space sample_dumps (serving \<lparr>content = None\<rparr>)
          \<lparr>conversations =
             [''conv-1'' \<mapsto> [mk_turn ''system'' (JStr ''s''), mk_turn ''user'' (JStr ''u''),
                             mk_turn ''assistant'' (JStr ''a'')]],
           conv_counter = 1\<rparr> ''acme'' ''docs''
          \<lparr>req_prompt = ''And Z?'', req_conversationId = Some ''conv-1''\<rparr>)
     = [mk_turn ''system'' (JStr ''s''), mk_turn ''user'' (JStr ''u''),
        mk_turn ''assistant'' (JStr ''a''), mk_turn ''user'' (JStr ''And Z?'')]"
  using
    conversation_history_window [of sample_dumps
      "serving \<lparr>content = Some
         [resource_item ''space://acme/1/files/overview.md'' ''X is Y.'']\<rparr>"
      "\<lparr>conversations = Map.empty, conv_counter = 0\<rparr>" "''acme''" "''docs''"
      "\<lparr>req_prompt = ''What is X?'', req_conversationId = None\<rparr>"]
    conversation_history_window [of sample_dumps "serving \<lparr>content = None\<rparr>"
      "\<lparr>conversations =
          [''conv-1'' \<mapsto> [mk_turn ''system'' (JStr ''s''), mk_turn ''user'' (JStr ''u''),
                          mk_turn ''assistant'' (JStr ''a'')]],
        conv_counter = 1\<rparr>" "''acme''" "''docs''"
      "\<lparr>req_prompt = ''And Z?'', req_conversationId = Some ''conv-1''\<rparr>"]
  by (simp add: unknown_conversation_def lookup_conversation_def history_at_call_def
      open_conversation_def new_conversation_id_def fetch_file_context_def
      system_content_def get_copilot_space_def split_space_ref_def mcp_session_def
      get_token_def serving_def leave_def get_body_def walk_items_def item_step_def
      resource_item_def get_resource_def strip_def is_space_def after_first_def
      build_context_def file_section_def last_n_def Let_def)



section \<open>Properties of the MCP tool \<open>query_space\<close>\<close>



end
